theory Spec2Isabelle
  imports Main "HOL-Library.Sublist"
begin

section \<open>Python string and dictionary primitives\<close>

text \<open>
  The script \<^verbatim>\<open>regenerate_docs.py\<close> turns a parsed OpenAPI document into one MDX page
  per operation. Python strings are modelled as \<^typ>\<open>string\<close>; the case mappings act on
  the ASCII letters and leave every other character as it is (HTTP method names and the
  keys of the specification are ASCII), which is where the model stops following
  Python's Unicode tables.
\<close>

definition char_lower :: "char \<Rightarrow> char" where
  "char_lower c =
     (let n = (of_char c :: nat) in if 65 \<le> n \<and> n \<le> 90 then char_of (n + 32) else c)"

definition char_upper :: "char \<Rightarrow> char" where
  "char_upper c =
     (let n = (of_char c :: nat) in if 97 \<le> n \<and> n \<le> 122 then char_of (n - 32) else c)"

definition str_lower :: "string \<Rightarrow> string" where
  "str_lower s = map char_lower s"

definition str_upper :: "string \<Rightarrow> string" where
  "str_upper s = map char_upper s"

text \<open>\<^verbatim>\<open>s.lstrip(chars)\<close>: drop leading characters as long as they occur in \<open>chars\<close>.\<close>

definition str_lstrip :: "string \<Rightarrow> string \<Rightarrow> string" where
  "str_lstrip chars s = dropWhile (\<lambda>c. c \<in> set chars) s"

text \<open>
  \<^verbatim>\<open>s.replace(old, new)\<close>: scan from the left, replace each non-overlapping occurrence
  of \<open>old\<close>; for an empty \<open>old\<close> Python puts \<open>new\<close> around every character.
\<close>

function str_replace :: "string \<Rightarrow> string \<Rightarrow> string \<Rightarrow> string" where
  "str_replace old new s =
     (if old = [] then new @ concat (map (\<lambda>c. c # new) s)
      else if s = [] then []
      else if prefix old s then new @ str_replace old new (drop (length old) s)
      else hd s # str_replace old new (tl s))"
  by pat_completeness auto
termination
  by (relation "measure (\<lambda>(old, new, s). length s)") (auto simp: prefix_def)

declare str_replace.simps [simp del]

text \<open>
  \<^verbatim>\<open>s.split(sep)\<close> for a separator of one character: the result is never empty, so
  the index \<^verbatim>\<open>[-1]\<close> of the source is \<^const>\<open>last\<close> and cannot fail.
\<close>

fun str_split :: "char \<Rightarrow> string \<Rightarrow> string list" where
  "str_split sep [] = [[]]"
| "str_split sep (c # cs) =
     (if c = sep then [] # str_split sep cs
      else (case str_split sep cs of [] \<Rightarrow> [[c]] | w # ws \<Rightarrow> (c # w) # ws))"

definition str_startswith :: "string \<Rightarrow> string \<Rightarrow> bool" where
  "str_startswith s p = prefix p s"

text \<open>\<^verbatim>\<open>str(n)\<close> of a non-negative integer, as the f-string of the final report formats it.\<close>

fun str_nat :: "nat \<Rightarrow> string" where
  "str_nat n =
     (if n < 10 then [char_of (48 + n)]
      else str_nat (n div 10) @ [char_of (48 + n mod 10)])"

declare str_nat.simps [simp del]

definition squote :: string where
  "squote = [CHR 0x27]"

definition backslash :: string where
  "backslash = [CHR 0x5C]"

text \<open>
  A dictionary with arbitrary keys (\<open>paths\<close>, a path item, \<open>content\<close>, \<open>responses\<close>) is
  an association list in insertion order, which is the order \<^verbatim>\<open>items()\<close> iterates in.
  The keys of a parsed JSON object are distinct; theorems that depend on it say so.
\<close>

type_synonym 'v dict = "(string \<times> 'v) list"

definition dict_get :: "'v dict \<Rightarrow> string \<Rightarrow> 'v \<Rightarrow> 'v" where
  "dict_get d k dflt = (case map_of d k of Some v \<Rightarrow> v | None \<Rightarrow> dflt)"

definition dict_contains :: "'v dict \<Rightarrow> string \<Rightarrow> bool" where
  "dict_contains d k = (k \<in> set (map fst d))"

text \<open>\<^verbatim>\<open>d[k] = v\<close>: an existing key keeps its position, a new key goes to the end.\<close>

definition dict_set :: "'v dict \<Rightarrow> string \<Rightarrow> 'v \<Rightarrow> 'v dict" where
  "dict_set d k v =
     (if dict_contains d k then map (\<lambda>kv. if fst kv = k then (k, v) else kv) d
      else d @ [(k, v)])"

text \<open>\<^verbatim>\<open>obj.get(key, default)\<close> on an attribute that is present or absent.\<close>

definition get_default :: "'a option \<Rightarrow> 'a \<Rightarrow> 'a" where
  "get_default x dflt = (case x of Some v \<Rightarrow> v | None \<Rightarrow> dflt)"

section \<open>Data model\<close>

text \<open>
  Values whose structure the script never looks into (a response object, the entries of
  \<open>security\<close>) are JSON values; the script only tests them for truth, as Python does:
  \<open>None\<close>, \<open>False\<close>, zero, the empty string, the empty list and the empty dictionary
  are false. Numbers are integers here.
\<close>

datatype json =
    JNull
  | JBool bool
  | JNum int
  | JStr string
  | JArr "json list"
  | JObj "(string \<times> json) list"

fun truthy :: "json \<Rightarrow> bool" where
  "truthy JNull = False"
| "truthy (JBool b) = b"
| "truthy (JNum n) = (n \<noteq> 0)"
| "truthy (JStr s) = (s \<noteq> [])"
| "truthy (JArr xs) = (xs \<noteq> [])"
| "truthy (JObj kvs) = (kvs \<noteq> [])"

text \<open>
  The objects with fixed attribute names are records; an attribute that may be missing
  is an \<open>option\<close>, and each access below supplies the default the source gives to
  \<^verbatim>\<open>get\<close>. The attributes have the types of the OpenAPI data model (texts are strings,
  \<open>parameters\<close> and \<open>security\<close> are sequences, \<open>required\<close> is a boolean); a document
  that puts a value of another JSON type there is outside these types. The entries of a
  path item are operations; the script looks only into those under a supported method.
\<close>

record schema =
  schema_type :: "string option"
  schema_ref :: "string option"

record parameter =
  p_name :: "string option"
  p_in :: "string option"
  p_schema :: "schema option"
  p_required :: "bool option"
  p_description :: "string option"

record media_type =
  mt_schema :: "schema option"

record request_body =
  rb_content :: "media_type dict option"

record operation =
  op_summary :: "string option"
  op_description :: "string option"
  op_parameters :: "parameter list option"
  op_requestBody :: "request_body option"
  op_responses :: "json dict option"
  op_security :: "json list option"

record spec_document =
  spec_paths :: "operation dict dict option"

section \<open>Filename Deriver\<close>

definition clean_filename :: "string \<Rightarrow> string \<Rightarrow> string" where
  "clean_filename path method =
     (let clean_path = str_replace ''/'' ''-'' (str_lstrip ''/'' path);
          filename = str_lower method @ ''-'' @ clean_path @ ''.mdx''
      in filename)"

text \<open>
  The claim's wording of the same derivation: one leading separator is removed, then
  every remaining separator becomes a hyphen.
\<close>

definition strip_one_separator :: "string \<Rightarrow> string" where
  "strip_one_separator path =
     (case path of [] \<Rightarrow> [] | c # cs \<Rightarrow> if c = CHR ''/'' then cs else c # cs)"

definition spec_filename :: "string \<Rightarrow> string \<Rightarrow> string" where
  "spec_filename path method =
     str_lower method @ ''-''
       @ map (\<lambda>c. if c = CHR ''/'' then CHR ''-'' else c) (strip_one_separator path)
       @ ''.mdx''"

section \<open>Field Renderer\<close>

text \<open>
  Lines 34 to 44 of the source: the request fields start empty and receive one body block
  when the request body has \<open>content\<close> with an \<open>application/json\<close> entry. A request body
  that has a \<open>content\<close> attribute is a non-empty dictionary, so the truth test of the
  source is decided by the presence of \<open>content\<close>; an absent \<open>requestBody\<close> defaults to
  the empty dictionary and an absent \<open>schema\<close> likewise.
\<close>

definition body_request_fields :: "request_body option \<Rightarrow> string" where
  \<open>body_request_fields request_body =
     (case request_body of
        None \<Rightarrow> []
      | Some rb \<Rightarrow>
          (case rb_content rb of
             None \<Rightarrow> []
           | Some content \<Rightarrow>
               (case map_of content ''application/json'' of
                  None \<Rightarrow> []
                | Some entry \<Rightarrow>
                    (case (case mt_schema entry of None \<Rightarrow> None | Some sc \<Rightarrow> schema_ref sc) of
                       Some ref \<Rightarrow>
                         (let schema_name = last (str_split (CHR ''/'') ref)
                          in ''<ParamField body="data" type="object" required>\<newline>  Request body data (''
                               @ schema_name @ '')\<newline></ParamField>\<newline>\<newline>'')
                     | None \<Rightarrow>
                         ''<ParamField body="data" type="object" required>\<newline>  Request body data\<newline></ParamField>\<newline>\<newline>''))))\<close>

text \<open>
  The two loops over \<open>parameters\<close> (lines 47 to 53 for \<open>path\<close>, lines 56 to 62 for
  \<open>query\<close>) have the same body up to that word. Each iteration that matches assigns
  the local variable \<open>description\<close> and appends one block to \<open>request_fields\<close>; the
  state of a loop is the pair of these two variables.
\<close>

definition param_description :: "parameter \<Rightarrow> string" where
  "param_description param =
     (let param_name = get_default (p_name param) []
      in get_default (p_description param) (param_name @ '' parameter''))"

definition param_field :: "string \<Rightarrow> parameter \<Rightarrow> string" where
  \<open>param_field kind param =
     (let param_name = get_default (p_name param) [];
          param_type = get_default (schema_type (get_default (p_schema param)
                         \<lparr>schema_type = None, schema_ref = None\<rparr>)) ''string'';
          required = (if get_default (p_required param) False then ''required'' else []);
          description = param_description param
      in ''<ParamField '' @ kind @ ''="'' @ param_name @ ''" type="'' @ param_type @ ''" ''
           @ required @ ''>\<newline>  '' @ description @ ''\<newline></ParamField>\<newline>\<newline>'')\<close>

definition param_step :: "string \<Rightarrow> parameter \<Rightarrow> string \<times> string \<Rightarrow> string \<times> string" where
  "param_step kind param st =
     (case st of (request_fields, description) \<Rightarrow>
        if p_in param = Some kind
        then (request_fields @ param_field kind param, param_description param)
        else (request_fields, description))"

section \<open>Response Renderer\<close>

text \<open>Line 66 and lines 71 to 75: the success group.\<close>

definition success_fields :: "json dict \<Rightarrow> string" where
  \<open>success_fields responses =
     (let success_response = dict_get responses ''200'' (JObj [])
      in if truthy success_response
         then ''### Success Responses\<newline>\<newline>''
              @ ''<ResponseField name="status" type="number">\<newline>  HTTP status code: 200\<newline></ResponseField>\<newline>\<newline>''
              @ ''<ResponseField name="message" type="string">\<newline>  Success message\<newline></ResponseField>\<newline>\<newline>''
              @ ''<ResponseField name="data" type="object">\<newline>  Response data\<newline></ResponseField>\<newline>\<newline>''
         else [])\<close>

text \<open>Line 67: the dictionary comprehension, one insertion per item that passes the test.\<close>

definition is_error_code :: "string \<Rightarrow> bool" where
  "is_error_code k = (str_startswith k ''4'' \<or> str_startswith k ''5'')"

definition error_responses_of :: "json dict \<Rightarrow> json dict" where
  "error_responses_of responses =
     fold (\<lambda>kv acc. if is_error_code (fst kv) then dict_set acc (fst kv) (snd kv) else acc)
       responses []"

text \<open>Lines 80 to 82: the three fields appended for one status code.\<close>

definition error_triplet :: "string \<Rightarrow> string" where
  \<open>error_triplet status_code =
     ''<ResponseField name="status" type="number">\<newline>  HTTP status code: '' @ status_code
       @ ''\<newline></ResponseField>\<newline>\<newline>''
     @ ''<ResponseField name="message" type="string">\<newline>  Error message\<newline></ResponseField>\<newline>\<newline>''
     @ ''<ResponseField name="error" type="object">\<newline>  Error details\<newline></ResponseField>\<newline>\<newline>''\<close>

definition error_fields :: "json dict \<Rightarrow> string" where
  \<open>error_fields responses =
     (let error_responses = error_responses_of responses
      in if error_responses \<noteq> []
         then fold (\<lambda>kv response_fields. response_fields @ error_triplet (fst kv))
                error_responses ''### Error Responses\<newline>\<newline>''
         else [])\<close>

definition render_response_fields :: "json dict \<Rightarrow> string" where
  "render_response_fields responses = success_fields responses @ error_fields responses"

section \<open>Example Renderer\<close>

text \<open>
  Lines 85 to 156: one f-string, given here line by line. The doubled braces of the
  source are single braces of the text, and its doubled backslash is one backslash.
\<close>

definition example_requests_of :: "string \<Rightarrow> string \<Rightarrow> string" where
  \<open>example_requests_of method path =
     ''## Example Request\<newline>''
     @ ''\<newline>''
     @ ''<CodeGroup>\<newline>''
     @ ''\<newline>''
     @ ''```bash cURL\<newline>''
     @ ''curl -X '' @ str_upper method @ '' '' @ backslash @ ''\<newline>''
     @ ''  '' @ squote @ path @ squote @ '' '' @ backslash @ ''\<newline>''
     @ ''  -H 'Content-Type: application/json' '' @ backslash @ ''\<newline>''
     @ ''  -H 'Authorization: Bearer YOUR_TOKEN'\<newline>''
     @ ''```\<newline>''
     @ ''\<newline>''
     @ ''```javascript JavaScript\<newline>''
     @ ''const response = await fetch('' @ squote @ path @ squote @ '', {\<newline>''
     @ ''  method: '' @ squote @ str_upper method @ squote @ '',\<newline>''
     @ ''  headers: {\<newline>''
     @ ''    'Content-Type': 'application/json',\<newline>''
     @ ''    'Authorization': 'Bearer YOUR_TOKEN'\<newline>''
     @ ''  },\<newline>''
     @ ''  body: JSON.stringify({\<newline>''
     @ ''    // Request body data\<newline>''
     @ ''  })\<newline>''
     @ ''});\<newline>''
     @ ''\<newline>''
     @ ''const data = await response.json();\<newline>''
     @ ''console.log(data);\<newline>''
     @ ''```\<newline>''
     @ ''\<newline>''
     @ ''```python Python\<newline>''
     @ ''import requests\<newline>''
     @ ''\<newline>''
     @ ''url = '' @ squote @ path @ squote @ ''\<newline>''
     @ ''headers = {\<newline>''
     @ ''    'Content-Type': 'application/json',\<newline>''
     @ ''    'Authorization': 'Bearer YOUR_TOKEN'\<newline>''
     @ ''}\<newline>''
     @ ''data = {\<newline>''
     @ ''    # Request body data\<newline>''
     @ ''}\<newline>''
     @ ''\<newline>''
     @ ''response = requests.'' @ str_lower method @ ''(url, headers=headers, json=data)\<newline>''
     @ ''result = response.json()\<newline>''
     @ ''print(result)\<newline>''
     @ ''```\<newline>''
     @ ''\<newline>''
     @ ''</CodeGroup>\<newline>''
     @ ''\<newline>''
     @ ''## Example Response\<newline>''
     @ ''\<newline>''
     @ ''### Success Response\<newline>''
     @ ''\<newline>''
     @ ''```json\<newline>''
     @ ''{\<newline>''
     @ ''  "status": 200,\<newline>''
     @ ''  "message": "Success",\<newline>''
     @ ''  "data": {\<newline>''
     @ ''    "key": "value"\<newline>''
     @ ''  }\<newline>''
     @ ''}\<newline>''
     @ ''```\<newline>''
     @ ''\<newline>''
     @ ''### Error Response\<newline>''
     @ ''\<newline>''
     @ ''```json\<newline>''
     @ ''{\<newline>''
     @ ''  "status": 400,\<newline>''
     @ ''  "message": "Bad Request",\<newline>''
     @ ''  "error": {\<newline>''
     @ ''    "code": "VALIDATION_ERROR",\<newline>''
     @ ''    "details": "Invalid input data"\<newline>''
     @ ''  }\<newline>''
     @ ''}\<newline>''
     @ ''```''\<close>

section \<open>Document Assembler\<close>

text \<open>Lines 159 to 166: the note is the text below when \<open>security\<close> is true, else empty.\<close>

definition auth_note_text :: string where
  \<open>auth_note_text =
     ''<Note>\<newline>''
     @ ''This endpoint requires authentication. Include your API key in the `X-API-Key` header or use Bearer token authentication.\<newline>''
     @ ''</Note>\<newline>''
     @ ''\<newline>''\<close>

definition auth_note_of :: "json list option \<Rightarrow> string" where
  "auth_note_of sec =
     (let security = get_default sec []
      in if security \<noteq> [] then auth_note_text else [])"

text \<open>Lines 169 to 183: the fixed template and its eight substitutions.\<close>

definition mdx_template ::
  "string \<Rightarrow> string \<Rightarrow> string \<Rightarrow> string \<Rightarrow> string \<Rightarrow> string \<Rightarrow> string \<Rightarrow> string \<Rightarrow> string" where
  \<open>mdx_template title method_upper path description auth_note request_fields
       response_fields example_requests =
     ''---\<newline>''
     @ ''title: "'' @ title @ ''"\<newline>''
     @ ''api: "'' @ method_upper @ '' '' @ path @ ''"\<newline>''
     @ ''description: "'' @ description @ ''"\<newline>''
     @ ''---\<newline>''
     @ ''\<newline>''
     @ ''## Overview\<newline>''
     @ ''\<newline>''
     @ description @ ''\<newline>''
     @ ''\<newline>''
     @ auth_note @ ''## Request\<newline>''
     @ ''\<newline>''
     @ request_fields @ ''## Response Codes\<newline>''
     @ ''\<newline>''
     @ response_fields @ example_requests\<close>

definition generate_mdx_content :: "string \<Rightarrow> string \<Rightarrow> operation \<Rightarrow> string" where
  "generate_mdx_content path method operation =
     (let title = get_default (op_summary operation) (str_upper method @ '' '' @ path);
          description = get_default (op_description operation)
                          (''API endpoint: '' @ str_upper method @ '' '' @ path);
          parameters = get_default (op_parameters operation) [];
          request_body = op_requestBody operation;
          request_fields = body_request_fields request_body;
          (request_fields, description) =
             fold (param_step ''path'') parameters (request_fields, description);
          (request_fields, description) =
             fold (param_step ''query'') parameters (request_fields, description);
          responses = get_default (op_responses operation) [];
          response_fields = render_response_fields responses;
          example_requests = example_requests_of method path;
          auth_note = auth_note_of (op_security operation)
      in mdx_template title (str_upper method) path description auth_note request_fields
           response_fields example_requests)"

text \<open>
  The values of the two loop variables when the template is filled in, named so that
  the theorems can speak of them.
\<close>

definition request_state :: "string \<Rightarrow> string \<Rightarrow> operation \<Rightarrow> string \<times> string" where
  "request_state path method operation =
     fold (param_step ''query'') (get_default (op_parameters operation) [])
       (fold (param_step ''path'') (get_default (op_parameters operation) [])
          (body_request_fields (op_requestBody operation),
           get_default (op_description operation)
             (''API endpoint: '' @ str_upper method @ '' '' @ path)))"

definition rendered_request_fields :: "string \<Rightarrow> string \<Rightarrow> operation \<Rightarrow> string" where
  "rendered_request_fields path method operation = fst (request_state path method operation)"

definition rendered_description :: "string \<Rightarrow> string \<Rightarrow> operation \<Rightarrow> string" where
  "rendered_description path method operation = snd (request_state path method operation)"

section \<open>Batch Driver\<close>

text \<open>
  The effects of a run: the files of the output directory \<^verbatim>\<open>api\<close> (name to content),
  the counter, and the lines printed. Writing a file is an update of the directory at
  its name, so a later write to the same name replaces the earlier content.

  Reading the specification, preparing the directory and writing a file can fail, and
  the script catches nothing: the exception ends the run. Whether they succeed is up
  to the file system (a derived name may be too long for it, or hold a character it
  refuses), so the model takes it from an environment. A failed run is an error value;
  nothing is said of what it leaves behind.
\<close>

datatype error = LoadError | FilesystemError

record environment =
  can_prepare :: bool
  can_write :: "string \<Rightarrow> string \<Rightarrow> bool"

definition permissive_env :: environment where
  "permissive_env = \<lparr>can_prepare = True, can_write = (\<lambda>filename content. True)\<rparr>"

record run_state =
  api_dir :: "string \<rightharpoonup> string"
  generated_count :: nat
  stdout :: "string list"

definition supported_methods :: "string list" where
  "supported_methods = [''GET'', ''POST'', ''PUT'', ''PATCH'', ''DELETE'']"

text \<open>
  Lines 11 to 14: the argument is what parsing the file gives, \<open>None\<close> when the file is
  missing, unreadable or not JSON.
\<close>

definition load_openapi_spec :: "spec_document option \<Rightarrow> error + spec_document" where
  "load_openapi_spec parsed = (case parsed of None \<Rightarrow> Inl LoadError | Some spec \<Rightarrow> Inr spec)"

text \<open>A \<^verbatim>\<open>for\<close> loop whose body may raise: the first error ends it.\<close>

fun for_each :: "('a \<Rightarrow> 's \<Rightarrow> error + 's) \<Rightarrow> 'a list \<Rightarrow> 's \<Rightarrow> error + 's" where
  "for_each body [] st = Inr st"
| "for_each body (x # xs) st =
     (case body x st of Inl e \<Rightarrow> Inl e | Inr st' \<Rightarrow> for_each body xs st')"

text \<open>Lines 205 to 218: the body of the inner loop for one entry of a path item.\<close>

definition process_operation ::
  "environment \<Rightarrow> string \<Rightarrow> string \<times> operation \<Rightarrow> run_state \<Rightarrow> error + run_state" where
  "process_operation env path entry st =
     (case entry of (method, operation) \<Rightarrow>
        if str_upper method \<in> set supported_methods
        then (let filename = clean_filename path method;
                  filepath = ''api/'' @ filename;
                  content = generate_mdx_content path method operation
              in if can_write env filename content
                 then Inr (st\<lparr>api_dir := (api_dir st)(filename \<mapsto> content),
                              generated_count := generated_count st + 1,
                              stdout := stdout st @ [''Generated: '' @ filepath]\<rparr>)
                 else Inl FilesystemError)
        else Inr st)"

text \<open>
  Lines 189 to 220. The directory before the run is \<open>None\<close> when it does not exist; it
  is removed when it exists and then created empty.
\<close>

definition regenerate_all_docs ::
  "environment \<Rightarrow> spec_document option \<Rightarrow> (string \<rightharpoonup> string) option \<Rightarrow> error + run_state" where
  "regenerate_all_docs env parsed existing =
     (case load_openapi_spec parsed of
        Inl e \<Rightarrow> Inl e
      | Inr spec \<Rightarrow>
          (let paths = get_default (spec_paths spec) []
           in if \<not> can_prepare env then Inl FilesystemError
              else
                (let removed = (case existing of Some files \<Rightarrow> None | None \<Rightarrow> None);
                     created = (case removed of Some files \<Rightarrow> files | None \<Rightarrow> Map.empty)
                 in case for_each
                           (\<lambda>(path, path_item) st.
                              for_each (process_operation env path) path_item st)
                           paths \<lparr>api_dir = created, generated_count = 0, stdout = []\<rparr> of
                      Inl e \<Rightarrow> Inl e
                    | Inr st \<Rightarrow>
                        Inr (st\<lparr>stdout := stdout st
                               @ [''\<newline>Generated '' @ str_nat (generated_count st)
                                    @ '' API documentation files'']\<rparr>))))"

text \<open>
  The claim's wording of what is processed: every (path, method, operation) of the
  specification whose method is one of the five, in iteration order.
\<close>

definition eligible_operations :: "spec_document \<Rightarrow> (string \<times> string \<times> operation) list" where
  "eligible_operations spec =
     concat (map (\<lambda>(path, path_item).
                    map (\<lambda>(method, operation). (path, method, operation))
                      (filter (\<lambda>(method, operation). str_upper method \<in> set supported_methods)
                         path_item))
               (get_default (spec_paths spec) []))"

text \<open>
  Strings are sequences of bytes. On a string of ASCII characters \<^const>\<open>str_upper\<close> and
  \<^const>\<open>str_lower\<close> are Python's \<^verbatim>\<open>upper()\<close> and \<^verbatim>\<open>lower()\<close>; beyond ASCII Python
  follows the Unicode tables (it takes the key \<^verbatim>\<open>po\<close> + U+017F + \<^verbatim>\<open>t\<close> for POST), and
  the model does not. What is proved of the batch run is therefore proved of
  specifications whose method keys are ASCII.
\<close>

definition is_ascii :: "string \<Rightarrow> bool" where
  "is_ascii s = list_all (\<lambda>c. (of_char c :: nat) < 128) s"

definition ascii_method_keys :: "spec_document \<Rightarrow> bool" where
  "ascii_method_keys spec =
     list_all (\<lambda>(path, path_item). list_all (\<lambda>(method, operation). is_ascii method) path_item)
       (get_default (spec_paths spec) [])"

section \<open>Facts about the primitives\<close>

lemma str_replace_char: "str_replace [a] [b] s = map (\<lambda>c. if c = a then b else c) s"
proof (induction s)
  case Nil
  show ?case by (subst str_replace.simps) simp
next
  case (Cons c cs)
  show ?case using Cons.IH by (subst str_replace.simps) auto
qed

lemma str_lstrip_char: "str_lstrip [a] s = dropWhile (\<lambda>c. c = a) s"
  by (simp add: str_lstrip_def)

lemma str_split_nonempty: "str_split sep s \<noteq> []"
  by (induction s) (auto split: list.splits)

lemma str_split_no_sep: "sep \<notin> set s \<Longrightarrow> str_split sep s = [s]"
  by (induction s) auto

lemma length_str_split:
  "length (str_split sep s) = Suc (length (filter (\<lambda>c. c = sep) s))"
  using str_split_nonempty by (induction s) (auto split: list.splits)

lemma last_str_split:
  "last (str_split sep s) = rev (takeWhile (\<lambda>c. c \<noteq> sep) (rev s))"
proof (induction s)
  case Nil
  show ?case by simp
next
  case (Cons c cs)
  show ?case
  proof (cases "c = sep")
    case True
    then show ?thesis using Cons.IH str_split_nonempty[of sep cs]
      by (auto simp: takeWhile_append)
  next
    case False
    show ?thesis
    proof (cases "sep \<in> set cs")
      case True
      obtain w ws where ws: "str_split sep cs = w # ws"
        using str_split_nonempty[of sep cs] by (cases "str_split sep cs") auto
      have "filter (\<lambda>c. c = sep) cs \<noteq> []"
        using True by (simp add: filter_empty_conv)
      then have "ws \<noteq> []"
        using length_str_split[of sep cs] ws by auto
      then show ?thesis using Cons.IH ws True False
        by (auto simp: takeWhile_append)
    next
      case notin: False
      then show ?thesis using False
        by (simp add: str_split_no_sep takeWhile_append)
    qed
  qed
qed

section \<open>The filename\<close>

lemma clean_filename_eq:
  "clean_filename path method =
     str_lower method @ ''-''
       @ map (\<lambda>c. if c = CHR ''/'' then CHR ''-'' else c) (dropWhile (\<lambda>c. c = CHR ''/'') path)
       @ ''.mdx''"
  by (simp add: clean_filename_def str_replace_char str_lstrip_char)

text \<open>
  C3, as amended. For every path and method the derived filename is the method in lower
  case, a hyphen, the path with all of its leading separators removed and every
  remaining separator replaced by a hyphen, and the extension \<open>.mdx\<close>. It is a function
  of path and method alone, defined on all strings; GET on \<open>/users/{id}\<close> gives
  \<open>get-users-{id}.mdx\<close>.
\<close>

theorem clean_filename_strips_all_leading:
  "clean_filename path method =
     str_lower method @ ''-''
       @ map (\<lambda>c. if c = CHR ''/'' then CHR ''-'' else c) (dropWhile (\<lambda>c. c = CHR ''/'') path)
       @ ''.mdx''
   \<and> clean_filename ''/users/{id}'' ''GET'' = ''get-users-{id}.mdx''"
proof
  show "clean_filename path method =
     str_lower method @ ''-''
       @ map (\<lambda>c. if c = CHR ''/'' then CHR ''-'' else c) (dropWhile (\<lambda>c. c = CHR ''/'') path)
       @ ''.mdx''"
    by (rule clean_filename_eq)
  have "str_lower ''GET'' = ''get''" by code_simp
  then show "clean_filename ''/users/{id}'' ''GET'' = ''get-users-{id}.mdx''"
    by (simp add: clean_filename_eq)
qed

text \<open>
  C3 as stated, with a single leading separator removed, fails on a path that begins
  with two separators: \<^verbatim>\<open>lstrip\<close> removes both, the stated derivation keeps the second
  one as a hyphen.
\<close>

theorem clean_filename_single_strip_counterexample:
  "clean_filename ''//a'' ''GET'' = ''get-a.mdx''
   \<and> spec_filename ''//a'' ''GET'' = ''get--a.mdx''
   \<and> clean_filename ''//a'' ''GET'' \<noteq> spec_filename ''//a'' ''GET''"
proof -
  have l: "str_lower ''GET'' = ''get''" by code_simp
  have a: "clean_filename ''//a'' ''GET'' = ''get-a.mdx''"
    by (simp add: clean_filename_def str_replace_char str_lstrip_char l)
  have b: "spec_filename ''//a'' ''GET'' = ''get--a.mdx''"
    by (simp add: spec_filename_def strip_one_separator_def l)
  show ?thesis using a b by simp
qed

text \<open>
  The two derivations differ on no other path: they agree on every path that does not
  begin with two separators.
\<close>

lemma clean_filename_single_leading_separator:
  "\<not> prefix ''//'' path \<Longrightarrow> clean_filename path method = spec_filename path method"
proof -
  assume a: "\<not> prefix ''//'' path"
  have "dropWhile (\<lambda>c. c = CHR ''/'') path = strip_one_separator path"
  proof (cases path)
    case Nil
    then show ?thesis by (simp add: strip_one_separator_def)
  next
    case (Cons c cs)
    show ?thesis
    proof (cases cs)
      case Nil
      then show ?thesis using Cons by (simp add: strip_one_separator_def)
    next
      case (Cons d ds)
      then show ?thesis using a \<open>path = c # cs\<close> by (auto simp: strip_one_separator_def)
    qed
  qed
  then show ?thesis by (simp add: clean_filename_eq spec_filename_def)
qed

section \<open>The generated document\<close>

text \<open>
  What a loop over the parameters leaves in its two variables: the blocks of the matching
  parameters are appended in order, and \<open>description\<close> holds the text of the last
  matching parameter when there is one.
\<close>

lemma fold_param_step:
  "fold (param_step kind) ps (rf, d) =
     (rf @ concat (map (param_field kind) (filter (\<lambda>p. p_in p = Some kind) ps)),
      (if filter (\<lambda>p. p_in p = Some kind) ps = [] then d
       else param_description (last (filter (\<lambda>p. p_in p = Some kind) ps))))"
  by (induction ps arbitrary: rf d) (auto simp: param_step_def)

lemma request_state_eq:
  "request_state path method operation =
     (let ps = get_default (op_parameters operation) [];
          paths = filter (\<lambda>p. p_in p = Some ''path'') ps;
          queries = filter (\<lambda>p. p_in p = Some ''query'') ps
      in (body_request_fields (op_requestBody operation)
            @ concat (map (param_field ''path'') paths)
            @ concat (map (param_field ''query'') queries),
          if queries \<noteq> [] then param_description (last queries)
          else if paths \<noteq> [] then param_description (last paths)
          else get_default (op_description operation)
                 (''API endpoint: '' @ str_upper method @ '' '' @ path)))"
  by (simp add: request_state_def fold_param_step Let_def)

lemma generate_mdx_content_layout:
  "generate_mdx_content path method operation =
     mdx_template (get_default (op_summary operation) (str_upper method @ '' '' @ path))
       (str_upper method) path
       (rendered_description path method operation)
       (auth_note_of (op_security operation))
       (rendered_request_fields path method operation)
       (render_response_fields (get_default (op_responses operation) []))
       (example_requests_of method path)"
  by (simp add: generate_mdx_content_def rendered_description_def rendered_request_fields_def
        request_state_def Let_def split_beta)

text \<open>
  C10. The title of the front matter, which opens the document, is the summary when the
  operation has one, and otherwise the upper-cased method, a space and the path as
  given: GET on \<open>/users/{id}\<close> without a summary is titled \<open>GET /users/{id}\<close>.
\<close>

theorem title_is_summary_or_method_and_path:
  \<open>prefix
     (''---\<newline>title: "''
        @ (case op_summary operation of Some summary \<Rightarrow> summary
           | None \<Rightarrow> str_upper method @ '' '' @ path)
        @ ''"\<newline>'')
     (generate_mdx_content path method operation)
   \<and> prefix ''---\<newline>title: "GET /users/{id}"\<newline>''
       (generate_mdx_content ''/users/{id}'' ''get'' (operation\<lparr>op_summary := None\<rparr>))\<close>
proof
  show \<open>prefix
     (''---\<newline>title: "''
        @ (case op_summary operation of Some summary \<Rightarrow> summary
           | None \<Rightarrow> str_upper method @ '' '' @ path)
        @ ''"\<newline>'')
     (generate_mdx_content path method operation)\<close>
    by (simp add: generate_mdx_content_layout mdx_template_def get_default_def prefix_def
          split: option.splits)
  have u: "str_upper ''get'' = ''GET''" by code_simp
  show \<open>prefix ''---\<newline>title: "GET /users/{id}"\<newline>''
       (generate_mdx_content ''/users/{id}'' ''get'' (operation\<lparr>op_summary := None\<rparr>))\<close>
    by (simp add: generate_mdx_content_layout mdx_template_def get_default_def u)
qed

text \<open>
  C7. The document is the fixed text below, and the place between the overview and the
  request section holds the authentication note exactly when \<open>security\<close> is present
  and not empty; with \<open>security\<close> absent or empty that place is empty.
\<close>

theorem auth_note_iff_security_nonempty:
  \<open>generate_mdx_content path method operation =
     ''---\<newline>title: "'' @ get_default (op_summary operation) (str_upper method @ '' '' @ path)
       @ ''"\<newline>api: "'' @ str_upper method @ '' '' @ path
       @ ''"\<newline>description: "'' @ rendered_description path method operation
       @ ''"\<newline>---\<newline>\<newline>## Overview\<newline>\<newline>''
       @ rendered_description path method operation @ ''\<newline>\<newline>''
       @ (if (\<exists>security. op_security operation = Some security \<and> security \<noteq> [])
          then ''<Note>\<newline>This endpoint requires authentication. Include your API key in the `X-API-Key` header or use Bearer token authentication.\<newline></Note>\<newline>\<newline>''
          else [])
       @ ''## Request\<newline>\<newline>'' @ rendered_request_fields path method operation
       @ ''## Response Codes\<newline>\<newline>''
       @ render_response_fields (get_default (op_responses operation) [])
       @ example_requests_of method path\<close>
  by (auto simp: generate_mdx_content_layout mdx_template_def auth_note_of_def get_default_def
        auth_note_text_def split: option.splits)

text \<open>
  C9. Every document has the front matter, the overview, the request section, the
  response-codes section and the example section, whatever the operation holds. For an
  operation with no parameters (the list empty or absent) and no request body the
  request section is there with an empty body: its heading is followed at once by the
  heading of the response codes.
\<close>

theorem every_section_present:
  \<open>generate_mdx_content path method operation =
     ''---\<newline>title: "'' @ get_default (op_summary operation) (str_upper method @ '' '' @ path)
       @ ''"\<newline>api: "'' @ str_upper method @ '' '' @ path
       @ ''"\<newline>description: "'' @ rendered_description path method operation
       @ ''"\<newline>---\<newline>\<newline>## Overview\<newline>\<newline>''
       @ rendered_description path method operation @ ''\<newline>\<newline>''
       @ auth_note_of (op_security operation)
       @ ''## Request\<newline>\<newline>'' @ rendered_request_fields path method operation
       @ ''## Response Codes\<newline>\<newline>''
       @ render_response_fields (get_default (op_responses operation) [])
       @ example_requests_of method path
   \<and> prefix ''## Example Request\<newline>'' (example_requests_of method path)
   \<and> ((op_parameters operation = None \<or> op_parameters operation = Some [])
          \<and> op_requestBody operation = None \<longrightarrow>
        rendered_request_fields path method operation = []
        \<and> generate_mdx_content path method operation =
           ''---\<newline>title: "'' @ get_default (op_summary operation) (str_upper method @ '' '' @ path)
             @ ''"\<newline>api: "'' @ str_upper method @ '' '' @ path
             @ ''"\<newline>description: "''
             @ get_default (op_description operation)
                 (''API endpoint: '' @ str_upper method @ '' '' @ path)
             @ ''"\<newline>---\<newline>\<newline>## Overview\<newline>\<newline>''
             @ get_default (op_description operation)
                 (''API endpoint: '' @ str_upper method @ '' '' @ path)
             @ ''\<newline>\<newline>''
             @ auth_note_of (op_security operation)
             @ ''## Request\<newline>\<newline>## Response Codes\<newline>\<newline>''
             @ render_response_fields (get_default (op_responses operation) [])
             @ example_requests_of method path)\<close>
proof (intro conjI impI)
  show \<open>generate_mdx_content path method operation =
     ''---\<newline>title: "'' @ get_default (op_summary operation) (str_upper method @ '' '' @ path)
       @ ''"\<newline>api: "'' @ str_upper method @ '' '' @ path
       @ ''"\<newline>description: "'' @ rendered_description path method operation
       @ ''"\<newline>---\<newline>\<newline>## Overview\<newline>\<newline>''
       @ rendered_description path method operation @ ''\<newline>\<newline>''
       @ auth_note_of (op_security operation)
       @ ''## Request\<newline>\<newline>'' @ rendered_request_fields path method operation
       @ ''## Response Codes\<newline>\<newline>''
       @ render_response_fields (get_default (op_responses operation) [])
       @ example_requests_of method path\<close>
    by (simp add: generate_mdx_content_layout mdx_template_def)
  show \<open>prefix ''## Example Request\<newline>'' (example_requests_of method path)\<close>
    by (simp add: example_requests_of_def)
next
  assume h: "(op_parameters operation = None \<or> op_parameters operation = Some [])
          \<and> op_requestBody operation = None"
  then have st: "request_state path method operation =
      ([], get_default (op_description operation)
             (''API endpoint: '' @ str_upper method @ '' '' @ path))"
    by (auto simp: request_state_def get_default_def body_request_fields_def)
  show "rendered_request_fields path method operation = []"
    by (simp add: rendered_request_fields_def st)
  show \<open>generate_mdx_content path method operation =
           ''---\<newline>title: "'' @ get_default (op_summary operation) (str_upper method @ '' '' @ path)
             @ ''"\<newline>api: "'' @ str_upper method @ '' '' @ path
             @ ''"\<newline>description: "''
             @ get_default (op_description operation)
                 (''API endpoint: '' @ str_upper method @ '' '' @ path)
             @ ''"\<newline>---\<newline>\<newline>## Overview\<newline>\<newline>''
             @ get_default (op_description operation)
                 (''API endpoint: '' @ str_upper method @ '' '' @ path)
             @ ''\<newline>\<newline>''
             @ auth_note_of (op_security operation)
             @ ''## Request\<newline>\<newline>## Response Codes\<newline>\<newline>''
             @ render_response_fields (get_default (op_responses operation) [])
             @ example_requests_of method path\<close>
    by (simp add: generate_mdx_content_layout mdx_template_def rendered_request_fields_def
          rendered_description_def st)
qed

text \<open>
  C9 at a concrete input: the operation with nothing but an empty parameter list, on
  \<open>/health\<close>.
\<close>

theorem every_section_present_witness:
  \<open>generate_mdx_content ''/health'' ''get''
      \<lparr>op_summary = None, op_description = None, op_parameters = Some [],
       op_requestBody = None, op_responses = None, op_security = None\<rparr> =
     ''---\<newline>title: "GET /health"\<newline>api: "GET /health"\<newline>description: "API endpoint: GET /health"\<newline>---\<newline>\<newline>## Overview\<newline>\<newline>API endpoint: GET /health\<newline>\<newline>## Request\<newline>\<newline>## Response Codes\<newline>\<newline>''
       @ example_requests_of ''get'' ''/health''\<close>
proof -
  have u: "str_upper ''get'' = ''GET''" by code_simp
  have r: "render_response_fields [] = []"
    by (simp add: render_response_fields_def success_fields_def error_fields_def
          error_responses_of_def dict_get_def)
  have h: "(op_parameters \<lparr>op_summary = None, op_description = None, op_parameters = Some [],
          op_requestBody = None, op_responses = None, op_security = None\<rparr> = None
        \<or> op_parameters \<lparr>op_summary = None, op_description = None, op_parameters = Some [],
          op_requestBody = None, op_responses = None, op_security = None\<rparr> = Some [])
      \<and> op_requestBody \<lparr>op_summary = None, op_description = None, op_parameters = Some [],
          op_requestBody = None, op_responses = None, op_security = None\<rparr> = None"
    by simp
  show ?thesis
    using every_section_present [of "''/health''" "''get''"
        "\<lparr>op_summary = None, op_description = None, op_parameters = Some [],
          op_requestBody = None, op_responses = None, op_security = None\<rparr>",
        THEN conjunct2, THEN conjunct2, THEN mp, OF h, THEN conjunct2]
    by (simp add: u r get_default_def auth_note_of_def)
qed

text \<open>
  C1. The loops over the parameters assign the same variable \<open>description\<close> that holds
  the description of the operation, and the template is filled in afterwards. On an
  operation described as \<open>Fetch a user\<close> with one path parameter described as \<open>User ID\<close>,
  both the front matter and the overview say \<open>User ID\<close>.
\<close>

theorem description_overwritten_by_parameter:
  \<open>generate_mdx_content ''/users/{id}'' ''get''
      \<lparr>op_summary = Some ''Get user'', op_description = Some ''Fetch a user'',
       op_parameters = Some
         [\<lparr>p_name = Some ''id'', p_in = Some ''path'', p_schema = None,
           p_required = Some True, p_description = Some ''User ID''\<rparr>],
       op_requestBody = None, op_responses = None, op_security = None\<rparr> =
     ''---\<newline>title: "Get user"\<newline>api: "GET /users/{id}"\<newline>description: "User ID"\<newline>---\<newline>\<newline>## Overview\<newline>\<newline>User ID\<newline>\<newline>## Request\<newline>\<newline><ParamField path="id" type="string" required>\<newline>  User ID\<newline></ParamField>\<newline>\<newline>## Response Codes\<newline>\<newline>''
       @ example_requests_of ''get'' ''/users/{id}''\<close>
proof -
  have u: "str_upper ''get'' = ''GET''" by code_simp
  have r: "render_response_fields [] = []"
    by (simp add: render_response_fields_def success_fields_def error_fields_def
          error_responses_of_def dict_get_def)
  show ?thesis
    by (simp add: generate_mdx_content_layout mdx_template_def rendered_description_def
          rendered_request_fields_def request_state_eq get_default_def u r auth_note_of_def
          body_request_fields_def param_field_def param_description_def)
qed

text \<open>
  C4. The request fields are, in this order: the body block when the request body has
  an \<open>application/json\<close> entry in its content, and nothing in its place otherwise;
  then one block for each parameter whose \<open>in\<close> is \<open>path\<close>, in the order of the
  parameter list; then one block for each parameter whose \<open>in\<close> is \<open>query\<close>, in the
  order of the parameter list. Every block is given by its text. The document carries
  the request fields in its request section.
\<close>

theorem request_fields_order:
  \<open>rendered_request_fields path method operation =
     (case op_requestBody operation of
        None \<Rightarrow> []
      | Some rb \<Rightarrow>
          (case rb_content rb of
             None \<Rightarrow> []
           | Some content \<Rightarrow>
               (case map_of content ''application/json'' of
                  None \<Rightarrow> []
                | Some entry \<Rightarrow>
                    ''<ParamField body="data" type="object" required>\<newline>  ''
                    @ (case (case mt_schema entry of None \<Rightarrow> None | Some sc \<Rightarrow> schema_ref sc) of
                         Some ref \<Rightarrow>
                           ''Request body data (''
                             @ rev (takeWhile (\<lambda>c. c \<noteq> CHR ''/'') (rev ref)) @ '')''
                       | None \<Rightarrow> ''Request body data'')
                    @ ''\<newline></ParamField>\<newline>\<newline>'')))
     @ concat (map (\<lambda>p.
           ''<ParamField path="'' @ (case p_name p of Some name \<Rightarrow> name | None \<Rightarrow> [])
           @ ''" type="''
           @ (case p_schema p of
                None \<Rightarrow> ''string''
              | Some sc \<Rightarrow> (case schema_type sc of Some t \<Rightarrow> t | None \<Rightarrow> ''string''))
           @ ''" '' @ (if p_required p = Some True then ''required'' else [])
           @ ''>\<newline>  ''
           @ (case p_description p of
                Some d \<Rightarrow> d
              | None \<Rightarrow> (case p_name p of Some name \<Rightarrow> name | None \<Rightarrow> []) @ '' parameter'')
           @ ''\<newline></ParamField>\<newline>\<newline>'')
         (filter (\<lambda>p. p_in p = Some ''path'')
            (case op_parameters operation of Some ps \<Rightarrow> ps | None \<Rightarrow> [])))
     @ concat (map (\<lambda>p.
           ''<ParamField query="'' @ (case p_name p of Some name \<Rightarrow> name | None \<Rightarrow> [])
           @ ''" type="''
           @ (case p_schema p of
                None \<Rightarrow> ''string''
              | Some sc \<Rightarrow> (case schema_type sc of Some t \<Rightarrow> t | None \<Rightarrow> ''string''))
           @ ''" '' @ (if p_required p = Some True then ''required'' else [])
           @ ''>\<newline>  ''
           @ (case p_description p of
                Some d \<Rightarrow> d
              | None \<Rightarrow> (case p_name p of Some name \<Rightarrow> name | None \<Rightarrow> []) @ '' parameter'')
           @ ''\<newline></ParamField>\<newline>\<newline>'')
         (filter (\<lambda>p. p_in p = Some ''query'')
            (case op_parameters operation of Some ps \<Rightarrow> ps | None \<Rightarrow> [])))
   \<and> generate_mdx_content path method operation =
       ''---\<newline>title: "'' @ get_default (op_summary operation) (str_upper method @ '' '' @ path)
         @ ''"\<newline>api: "'' @ str_upper method @ '' '' @ path
         @ ''"\<newline>description: "'' @ rendered_description path method operation
         @ ''"\<newline>---\<newline>\<newline>## Overview\<newline>\<newline>''
         @ rendered_description path method operation @ ''\<newline>\<newline>''
         @ auth_note_of (op_security operation)
         @ ''## Request\<newline>\<newline>'' @ rendered_request_fields path method operation
         @ ''## Response Codes\<newline>\<newline>''
         @ render_response_fields (get_default (op_responses operation) [])
         @ example_requests_of method path\<close>
proof
  have body: \<open>body_request_fields (op_requestBody operation) =
     (case op_requestBody operation of
        None \<Rightarrow> []
      | Some rb \<Rightarrow>
          (case rb_content rb of
             None \<Rightarrow> []
           | Some content \<Rightarrow>
               (case map_of content ''application/json'' of
                  None \<Rightarrow> []
                | Some entry \<Rightarrow>
                    ''<ParamField body="data" type="object" required>\<newline>  ''
                    @ (case (case mt_schema entry of None \<Rightarrow> None | Some sc \<Rightarrow> schema_ref sc) of
                         Some ref \<Rightarrow>
                           ''Request body data (''
                             @ rev (takeWhile (\<lambda>c. c \<noteq> CHR ''/'') (rev ref)) @ '')''
                       | None \<Rightarrow> ''Request body data'')
                    @ ''\<newline></ParamField>\<newline>\<newline>'')))\<close>
    by (simp add: body_request_fields_def last_str_split split: option.splits)
  have field: \<open>param_field kind = (\<lambda>p.
           ''<ParamField '' @ kind @ ''="'' @ (case p_name p of Some name \<Rightarrow> name | None \<Rightarrow> [])
           @ ''" type="''
           @ (case p_schema p of
                None \<Rightarrow> ''string''
              | Some sc \<Rightarrow> (case schema_type sc of Some t \<Rightarrow> t | None \<Rightarrow> ''string''))
           @ ''" '' @ (if p_required p = Some True then ''required'' else [])
           @ ''>\<newline>  ''
           @ (case p_description p of
                Some d \<Rightarrow> d
              | None \<Rightarrow> (case p_name p of Some name \<Rightarrow> name | None \<Rightarrow> []) @ '' parameter'')
           @ ''\<newline></ParamField>\<newline>\<newline>'')\<close> for kind
    by (rule ext)
       (simp add: param_field_def param_description_def get_default_def split: option.splits)
  have ps: "get_default (op_parameters operation) [] =
              (case op_parameters operation of Some ps \<Rightarrow> ps | None \<Rightarrow> [])"
    by (simp add: get_default_def)
  show \<open>rendered_request_fields path method operation =
     (case op_requestBody operation of
        None \<Rightarrow> []
      | Some rb \<Rightarrow>
          (case rb_content rb of
             None \<Rightarrow> []
           | Some content \<Rightarrow>
               (case map_of content ''application/json'' of
                  None \<Rightarrow> []
                | Some entry \<Rightarrow>
                    ''<ParamField body="data" type="object" required>\<newline>  ''
                    @ (case (case mt_schema entry of None \<Rightarrow> None | Some sc \<Rightarrow> schema_ref sc) of
                         Some ref \<Rightarrow>
                           ''Request body data (''
                             @ rev (takeWhile (\<lambda>c. c \<noteq> CHR ''/'') (rev ref)) @ '')''
                       | None \<Rightarrow> ''Request body data'')
                    @ ''\<newline></ParamField>\<newline>\<newline>'')))
     @ concat (map (\<lambda>p.
           ''<ParamField path="'' @ (case p_name p of Some name \<Rightarrow> name | None \<Rightarrow> [])
           @ ''" type="''
           @ (case p_schema p of
                None \<Rightarrow> ''string''
              | Some sc \<Rightarrow> (case schema_type sc of Some t \<Rightarrow> t | None \<Rightarrow> ''string''))
           @ ''" '' @ (if p_required p = Some True then ''required'' else [])
           @ ''>\<newline>  ''
           @ (case p_description p of
                Some d \<Rightarrow> d
              | None \<Rightarrow> (case p_name p of Some name \<Rightarrow> name | None \<Rightarrow> []) @ '' parameter'')
           @ ''\<newline></ParamField>\<newline>\<newline>'')
         (filter (\<lambda>p. p_in p = Some ''path'')
            (case op_parameters operation of Some ps \<Rightarrow> ps | None \<Rightarrow> [])))
     @ concat (map (\<lambda>p.
           ''<ParamField query="'' @ (case p_name p of Some name \<Rightarrow> name | None \<Rightarrow> [])
           @ ''" type="''
           @ (case p_schema p of
                None \<Rightarrow> ''string''
              | Some sc \<Rightarrow> (case schema_type sc of Some t \<Rightarrow> t | None \<Rightarrow> ''string''))
           @ ''" '' @ (if p_required p = Some True then ''required'' else [])
           @ ''>\<newline>  ''
           @ (case p_description p of
                Some d \<Rightarrow> d
              | None \<Rightarrow> (case p_name p of Some name \<Rightarrow> name | None \<Rightarrow> []) @ '' parameter'')
           @ ''\<newline></ParamField>\<newline>\<newline>'')
         (filter (\<lambda>p. p_in p = Some ''query'')
            (case op_parameters operation of Some ps \<Rightarrow> ps | None \<Rightarrow> [])))\<close>
    unfolding rendered_request_fields_def request_state_eq Let_def fst_conv
      body field[of "''path''"] field[of "''query''"] ps
    by simp
  show \<open>generate_mdx_content path method operation =
       ''---\<newline>title: "'' @ get_default (op_summary operation) (str_upper method @ '' '' @ path)
         @ ''"\<newline>api: "'' @ str_upper method @ '' '' @ path
         @ ''"\<newline>description: "'' @ rendered_description path method operation
         @ ''"\<newline>---\<newline>\<newline>## Overview\<newline>\<newline>''
         @ rendered_description path method operation @ ''\<newline>\<newline>''
         @ auth_note_of (op_security operation)
         @ ''## Request\<newline>\<newline>'' @ rendered_request_fields path method operation
         @ ''## Response Codes\<newline>\<newline>''
         @ render_response_fields (get_default (op_responses operation) [])
         @ example_requests_of method path\<close>
    by (simp add: generate_mdx_content_layout mdx_template_def)
qed

text \<open>
  C6. When the request body has an \<open>application/json\<close> entry in its content, the request
  fields begin with one body block, followed by the path and query blocks only. The
  description of the block names the part of the reference after its last \<open>/\<close> when the
  schema is a reference (\<open>User\<close> for \<open>#/components/schemas/User\<close>), and is the generic
  text otherwise.
\<close>

theorem json_body_field:
  assumes "op_requestBody operation = Some rb"
    and "rb_content rb = Some content"
    and "map_of content ''application/json'' = Some entry"
  shows \<open>rendered_request_fields path method operation =
     ''<ParamField body="data" type="object" required>\<newline>  ''
       @ (case (case mt_schema entry of None \<Rightarrow> None | Some sc \<Rightarrow> schema_ref sc) of
            Some ref \<Rightarrow>
              ''Request body data ('' @ rev (takeWhile (\<lambda>c. c \<noteq> CHR ''/'') (rev ref)) @ '')''
          | None \<Rightarrow> ''Request body data'')
       @ ''\<newline></ParamField>\<newline>\<newline>''
       @ concat (map (param_field ''path'')
           (filter (\<lambda>p. p_in p = Some ''path'') (get_default (op_parameters operation) [])))
       @ concat (map (param_field ''query'')
           (filter (\<lambda>p. p_in p = Some ''query'') (get_default (op_parameters operation) [])))
   \<and> rev (takeWhile (\<lambda>c. c \<noteq> CHR ''/'') (rev ''#/components/schemas/User'')) = ''User''\<close>
  using assms
  by (simp add: rendered_request_fields_def request_state_eq Let_def body_request_fields_def
        last_str_split split: option.splits)

text \<open>
  C6 at a concrete input: a request body whose schema refers to
  \<open>#/components/schemas/User\<close>.
\<close>

theorem json_body_field_witness:
  \<open>rendered_request_fields ''/users'' ''post''
      \<lparr>op_summary = None, op_description = None, op_parameters = None,
       op_requestBody = Some \<lparr>rb_content = Some
         [(''application/json'',
           \<lparr>mt_schema = Some \<lparr>schema_type = None,
                                schema_ref = Some ''#/components/schemas/User''\<rparr>\<rparr>)]\<rparr>,
       op_responses = None, op_security = None\<rparr> =
     ''<ParamField body="data" type="object" required>\<newline>  Request body data (User)\<newline></ParamField>\<newline>\<newline>''\<close>
  using json_body_field [of
      "\<lparr>op_summary = None, op_description = None, op_parameters = None,
       op_requestBody = Some \<lparr>rb_content = Some
         [(''application/json'',
           \<lparr>mt_schema = Some \<lparr>schema_type = None,
                                schema_ref = Some ''#/components/schemas/User''\<rparr>\<rparr>)]\<rparr>,
       op_responses = None, op_security = None\<rparr>"
      "\<lparr>rb_content = Some
         [(''application/json'',
           \<lparr>mt_schema = Some \<lparr>schema_type = None,
                                schema_ref = Some ''#/components/schemas/User''\<rparr>\<rparr>)]\<rparr>"
      "[(''application/json'',
           \<lparr>mt_schema = Some \<lparr>schema_type = None,
                                schema_ref = Some ''#/components/schemas/User''\<rparr>\<rparr>)]"
      "\<lparr>mt_schema = Some \<lparr>schema_type = None,
                                schema_ref = Some ''#/components/schemas/User''\<rparr>\<rparr>"
      "''/users''" "''post''"]
  by (simp add: get_default_def)

section \<open>The response fields\<close>

lemma is_error_code_first_char:
  "is_error_code k = (case k of [] \<Rightarrow> False | c # cs \<Rightarrow> c = CHR ''4'' \<or> c = CHR ''5'')"
  by (cases k) (auto simp: is_error_code_def str_startswith_def)

lemma fold_error_insert:
  "distinct (map fst rs) \<Longrightarrow> fst ` set acc \<inter> fst ` set rs = {} \<Longrightarrow>
   fold (\<lambda>kv acc. if is_error_code (fst kv) then dict_set acc (fst kv) (snd kv) else acc) rs acc =
     acc @ filter (\<lambda>kv. is_error_code (fst kv)) rs"
proof (induction rs arbitrary: acc)
  case Nil
  show ?case by simp
next
  case (Cons kv rs)
  show ?case
  proof (cases "is_error_code (fst kv)")
    case True
    have new: "\<not> dict_contains acc (fst kv)"
      using Cons.prems(2) by (auto simp: dict_contains_def)
    have disj: "fst ` set (acc @ [kv]) \<inter> fst ` set rs = {}"
      using Cons.prems by auto
    have "distinct (map fst rs)" using Cons.prems(1) by simp
    from Cons.IH[OF this disj] True new show ?thesis
      by (simp add: dict_set_def)
  next
    case False
    have disj: "fst ` set acc \<inter> fst ` set rs = {}"
      using Cons.prems by auto
    have "distinct (map fst rs)" using Cons.prems(1) by simp
    from Cons.IH[OF this disj] False show ?thesis by simp
  qed
qed

lemma error_responses_of_filter:
  "distinct (map fst responses) \<Longrightarrow>
   error_responses_of responses = filter (\<lambda>kv. is_error_code (fst kv)) responses"
  using fold_error_insert[of responses "[]"] by (simp add: error_responses_of_def)

lemma fold_append_blocks:
  "fold (\<lambda>x acc. acc @ f x) xs acc = acc @ concat (map f xs)"
  by (induction xs arbitrary: acc) auto

lemma error_fields_eq:
  assumes "distinct (map fst responses)"
  shows \<open>error_fields responses =
     (if filter is_error_code (map fst responses) = [] then []
      else ''### Error Responses\<newline>\<newline>''
           @ concat (map error_triplet (filter is_error_code (map fst responses))))\<close>
proof -
  have m: "map fst (filter (\<lambda>kv. is_error_code (fst kv)) responses)
             = filter is_error_code (map fst responses)"
    by (simp add: filter_map comp_def)
  have c: "concat (map (\<lambda>kv. error_triplet (fst kv)) (filter (\<lambda>kv. is_error_code (fst kv)) responses))
             = concat (map error_triplet (filter is_error_code (map fst responses)))"
    by (simp add: m[symmetric] comp_def)
  have e: "(filter (\<lambda>kv. is_error_code (fst kv)) responses = [])
             = (filter is_error_code (map fst responses) = [])"
    by (simp add: m[symmetric])
  show ?thesis
    by (simp add: error_fields_def error_responses_of_filter[OF assms] fold_append_blocks c e)
qed

lemma success_fields_eq:
  \<open>success_fields responses =
     (if (\<exists>v. map_of responses ''200'' = Some v \<and> truthy v)
      then ''### Success Responses\<newline>\<newline>''
           @ ''<ResponseField name="status" type="number">\<newline>  HTTP status code: 200\<newline></ResponseField>\<newline>\<newline>''
           @ ''<ResponseField name="message" type="string">\<newline>  Success message\<newline></ResponseField>\<newline>\<newline>''
           @ ''<ResponseField name="data" type="object">\<newline>  Response data\<newline></ResponseField>\<newline>\<newline>''
      else [])\<close>
  by (auto simp: success_fields_def dict_get_def split: option.splits)

text \<open>
  C2, as amended. The success group is not empty exactly when the responses have the
  key \<open>200\<close> with a value that Python counts as true (for a response object: one with
  at least one attribute); it is then the heading and the same three fields, a numeric
  status, a string message and an object payload, whatever the response declares.
\<close>

theorem success_group_iff_truthy_200:
  \<open>success_fields responses =
     (if (\<exists>v. map_of responses ''200'' = Some v \<and> truthy v)
      then ''### Success Responses\<newline>\<newline>''
           @ ''<ResponseField name="status" type="number">\<newline>  HTTP status code: 200\<newline></ResponseField>\<newline>\<newline>''
           @ ''<ResponseField name="message" type="string">\<newline>  Success message\<newline></ResponseField>\<newline>\<newline>''
           @ ''<ResponseField name="data" type="object">\<newline>  Response data\<newline></ResponseField>\<newline>\<newline>''
      else [])
   \<and> (success_fields responses \<noteq> []) = (\<exists>v. map_of responses ''200'' = Some v \<and> truthy v)\<close>
  by (simp add: success_fields_eq)

text \<open>
  C2 as stated fails on responses whose \<open>200\<close> entry is the empty object: the key is
  there, and the success group is empty.
\<close>

theorem success_group_empty_200_counterexample:
  "dict_contains [(''200'', JObj [])] ''200'' \<and> success_fields [(''200'', JObj [])] = []"
  by (simp add: dict_contains_def success_fields_def dict_get_def)

text \<open>
  C5, as amended. For responses with distinct keys, the error group has one triplet of
  fields (status, message, error object) for each key whose first character is \<open>4\<close> or
  \<open>5\<close>, in the order of the keys, each with its status code in the text, under one
  heading; without such a key it is empty. Responses with the keys \<open>200\<close>, \<open>400\<close> and
  \<open>404\<close> give the two error triplets for 400 and 404, and before them the one success
  triplet when the value at \<open>200\<close> counts as true.
\<close>

theorem error_group_one_triplet_per_code:
  assumes "distinct (map fst responses)"
  shows \<open>error_fields responses =
     (if filter (\<lambda>k. case k of [] \<Rightarrow> False | c # cs \<Rightarrow> c = CHR ''4'' \<or> c = CHR ''5'')
           (map fst responses) = []
      then []
      else ''### Error Responses\<newline>\<newline>''
           @ concat (map (\<lambda>status_code.
                ''<ResponseField name="status" type="number">\<newline>  HTTP status code: ''
                  @ status_code @ ''\<newline></ResponseField>\<newline>\<newline>''
                @ ''<ResponseField name="message" type="string">\<newline>  Error message\<newline></ResponseField>\<newline>\<newline>''
                @ ''<ResponseField name="error" type="object">\<newline>  Error details\<newline></ResponseField>\<newline>\<newline>'')
              (filter (\<lambda>k. case k of [] \<Rightarrow> False | c # cs \<Rightarrow> c = CHR ''4'' \<or> c = CHR ''5'')
                 (map fst responses))))
   \<and> (truthy ok \<longrightarrow>
        render_response_fields [(''200'', ok), (''400'', bad_request), (''404'', not_found)] =
          ''### Success Responses\<newline>\<newline>''
          @ ''<ResponseField name="status" type="number">\<newline>  HTTP status code: 200\<newline></ResponseField>\<newline>\<newline>''
          @ ''<ResponseField name="message" type="string">\<newline>  Success message\<newline></ResponseField>\<newline>\<newline>''
          @ ''<ResponseField name="data" type="object">\<newline>  Response data\<newline></ResponseField>\<newline>\<newline>''
          @ ''### Error Responses\<newline>\<newline>''
          @ ''<ResponseField name="status" type="number">\<newline>  HTTP status code: 400\<newline></ResponseField>\<newline>\<newline>''
          @ ''<ResponseField name="message" type="string">\<newline>  Error message\<newline></ResponseField>\<newline>\<newline>''
          @ ''<ResponseField name="error" type="object">\<newline>  Error details\<newline></ResponseField>\<newline>\<newline>''
          @ ''<ResponseField name="status" type="number">\<newline>  HTTP status code: 404\<newline></ResponseField>\<newline>\<newline>''
          @ ''<ResponseField name="message" type="string">\<newline>  Error message\<newline></ResponseField>\<newline>\<newline>''
          @ ''<ResponseField name="error" type="object">\<newline>  Error details\<newline></ResponseField>\<newline>\<newline>'')\<close>
proof (intro conjI impI)
  have p: "is_error_code = (\<lambda>k. case k of [] \<Rightarrow> False | c # cs \<Rightarrow> c = CHR ''4'' \<or> c = CHR ''5'')"
    by (rule ext) (rule is_error_code_first_char)
  have t: \<open>error_triplet = (\<lambda>status_code.
                ''<ResponseField name="status" type="number">\<newline>  HTTP status code: ''
                  @ status_code @ ''\<newline></ResponseField>\<newline>\<newline>''
                @ ''<ResponseField name="message" type="string">\<newline>  Error message\<newline></ResponseField>\<newline>\<newline>''
                @ ''<ResponseField name="error" type="object">\<newline>  Error details\<newline></ResponseField>\<newline>\<newline>'')\<close>
    by (rule ext) (simp add: error_triplet_def)
  show \<open>error_fields responses =
     (if filter (\<lambda>k. case k of [] \<Rightarrow> False | c # cs \<Rightarrow> c = CHR ''4'' \<or> c = CHR ''5'')
           (map fst responses) = []
      then []
      else ''### Error Responses\<newline>\<newline>''
           @ concat (map (\<lambda>status_code.
                ''<ResponseField name="status" type="number">\<newline>  HTTP status code: ''
                  @ status_code @ ''\<newline></ResponseField>\<newline>\<newline>''
                @ ''<ResponseField name="message" type="string">\<newline>  Error message\<newline></ResponseField>\<newline>\<newline>''
                @ ''<ResponseField name="error" type="object">\<newline>  Error details\<newline></ResponseField>\<newline>\<newline>'')
              (filter (\<lambda>k. case k of [] \<Rightarrow> False | c # cs \<Rightarrow> c = CHR ''4'' \<or> c = CHR ''5'')
                 (map fst responses))))\<close>
    using error_fields_eq[OF assms] unfolding p t .
next
  assume ok: "truthy ok"
  have d: "distinct (map fst [(''200'', ok), (''400'', bad_request), (''404'', not_found)])"
    by simp
  have s: "\<exists>v. map_of [(''200'', ok), (''400'', bad_request), (''404'', not_found)] ''200'' = Some v \<and> truthy v"
    using ok by simp
  have f: "filter is_error_code (map fst [(''200'', ok), (''400'', bad_request), (''404'', not_found)])
             = [''400'', ''404'']"
    by (simp add: is_error_code_first_char)
  show \<open>render_response_fields [(''200'', ok), (''400'', bad_request), (''404'', not_found)] =
          ''### Success Responses\<newline>\<newline>''
          @ ''<ResponseField name="status" type="number">\<newline>  HTTP status code: 200\<newline></ResponseField>\<newline>\<newline>''
          @ ''<ResponseField name="message" type="string">\<newline>  Success message\<newline></ResponseField>\<newline>\<newline>''
          @ ''<ResponseField name="data" type="object">\<newline>  Response data\<newline></ResponseField>\<newline>\<newline>''
          @ ''### Error Responses\<newline>\<newline>''
          @ ''<ResponseField name="status" type="number">\<newline>  HTTP status code: 400\<newline></ResponseField>\<newline>\<newline>''
          @ ''<ResponseField name="message" type="string">\<newline>  Error message\<newline></ResponseField>\<newline>\<newline>''
          @ ''<ResponseField name="error" type="object">\<newline>  Error details\<newline></ResponseField>\<newline>\<newline>''
          @ ''<ResponseField name="status" type="number">\<newline>  HTTP status code: 404\<newline></ResponseField>\<newline>\<newline>''
          @ ''<ResponseField name="message" type="string">\<newline>  Error message\<newline></ResponseField>\<newline>\<newline>''
          @ ''<ResponseField name="error" type="object">\<newline>  Error details\<newline></ResponseField>\<newline>\<newline>''\<close>
    unfolding render_response_fields_def error_fields_eq[OF d] f
    using s by (simp add: success_fields_eq error_triplet_def)
qed

text \<open>C5 at a concrete input: responses with a described \<open>200\<close>, \<open>400\<close> and \<open>404\<close>.\<close>

theorem error_group_one_triplet_per_code_witness:
  \<open>error_fields [(''200'', JObj [(''description'', JStr ''OK'')]),
                 (''400'', JObj [(''description'', JStr ''Bad Request'')]),
                 (''404'', JObj [(''description'', JStr ''Not Found'')])] =
     ''### Error Responses\<newline>\<newline>'' @ error_triplet ''400'' @ error_triplet ''404''
   \<and> render_response_fields [(''200'', JObj [(''description'', JStr ''OK'')]),
                 (''400'', JObj [(''description'', JStr ''Bad Request'')]),
                 (''404'', JObj [(''description'', JStr ''Not Found'')])] =
     success_fields [(''200'', JObj [(''description'', JStr ''OK'')])]
       @ ''### Error Responses\<newline>\<newline>'' @ error_triplet ''400'' @ error_triplet ''404''
   \<and> success_fields [(''200'', JObj [(''description'', JStr ''OK'')])] \<noteq> []\<close>
proof -
  have d: "distinct (map fst [(''200'', JObj [(''description'', JStr ''OK'')]),
                 (''400'', JObj [(''description'', JStr ''Bad Request'')]),
                 (''404'', JObj [(''description'', JStr ''Not Found'')])])"
    by simp
  have t: "truthy (JObj [(''description'', JStr ''OK'')])" by simp
  note w = error_group_one_triplet_per_code [OF d,
      of "JObj [(''description'', JStr ''OK'')]"
         "JObj [(''description'', JStr ''Bad Request'')]"
         "JObj [(''description'', JStr ''Not Found'')]"]
  from w[THEN conjunct1] w[THEN conjunct2, THEN mp, OF t] show ?thesis
    by (simp add: error_triplet_def success_fields_def dict_get_def)
qed

text \<open>
  C5 as stated promises a success triplet for every responses mapping with the keys
  \<open>200\<close>, \<open>400\<close> and \<open>404\<close>; with the empty object at \<open>200\<close> there is none, and
  the response fields are the two error triplets alone.
\<close>

theorem success_triplet_missing_counterexample:
  \<open>map fst [(''200'', JObj []),
             (''400'', JObj [(''description'', JStr ''Bad Request'')]),
             (''404'', JObj [(''description'', JStr ''Not Found'')])] = [''200'', ''400'', ''404'']
   \<and> success_fields [(''200'', JObj []),
             (''400'', JObj [(''description'', JStr ''Bad Request'')]),
             (''404'', JObj [(''description'', JStr ''Not Found'')])] = []
   \<and> render_response_fields [(''200'', JObj []),
             (''400'', JObj [(''description'', JStr ''Bad Request'')]),
             (''404'', JObj [(''description'', JStr ''Not Found'')])] =
       ''### Error Responses\<newline>\<newline>'' @ error_triplet ''400'' @ error_triplet ''404''\<close>
proof -
  have d: "distinct (map fst [(''200'', JObj []),
             (''400'', JObj [(''description'', JStr ''Bad Request'')]),
             (''404'', JObj [(''description'', JStr ''Not Found'')])])"
    by simp
  show ?thesis
    unfolding render_response_fields_def error_fields_eq[OF d]
    by (simp add: success_fields_def dict_get_def is_error_code_first_char)
qed

section \<open>The batch run\<close>

text \<open>
  One iteration of the inner loop leaves the state alone, or writes one file, counts it
  and prints its path, or fails at the write. As long as every write succeeds the
  loops run to their end.
\<close>

lemma process_operation_skip:
  "str_upper (fst entry) \<notin> set supported_methods \<Longrightarrow>
   process_operation env path entry st = Inr st"
  by (cases entry) (simp add: process_operation_def)

lemma process_operation_write:
  "str_upper (fst entry) \<in> set supported_methods \<Longrightarrow>
   can_write env (clean_filename path (fst entry))
     (generate_mdx_content path (fst entry) (snd entry)) \<Longrightarrow>
   process_operation env path entry st =
     Inr \<lparr>api_dir = (api_dir st)(clean_filename path (fst entry) \<mapsto>
                        generate_mdx_content path (fst entry) (snd entry)),
          generated_count = generated_count st + 1,
          stdout = stdout st @ [''Generated: api/'' @ clean_filename path (fst entry)]\<rparr>"
  by (cases entry) (simp add: process_operation_def Let_def)

lemma process_operation_fail:
  "str_upper (fst entry) \<in> set supported_methods \<Longrightarrow>
   \<not> can_write env (clean_filename path (fst entry))
     (generate_mdx_content path (fst entry) (snd entry)) \<Longrightarrow>
   process_operation env path entry st = Inl FilesystemError"
  by (cases entry) (simp add: process_operation_def Let_def)

lemma upd_add_map_of_rev:
  "m(k \<mapsto> v) ++ map_of (rev xs) = m ++ map_of (rev ((k, v) # xs))"
  by (simp add: fun_eq_iff map_add_def split: option.splits)

lemma for_each_item:
  assumes "\<forall>e \<in> set path_item. str_upper (fst e) \<in> set supported_methods \<longrightarrow>
             can_write env (clean_filename path (fst e))
               (generate_mdx_content path (fst e) (snd e))"
  shows "for_each (process_operation env path) path_item st =
     Inr \<lparr>api_dir = api_dir st ++ map_of (rev (map (\<lambda>e. (clean_filename path (fst e),
                                       generate_mdx_content path (fst e) (snd e)))
                        (filter (\<lambda>e. str_upper (fst e) \<in> set supported_methods) path_item))),
          generated_count = generated_count st
             + length (filter (\<lambda>e. str_upper (fst e) \<in> set supported_methods) path_item),
          stdout = stdout st
             @ map (\<lambda>e. ''Generated: api/'' @ clean_filename path (fst e))
                 (filter (\<lambda>e. str_upper (fst e) \<in> set supported_methods) path_item)\<rparr>"
  using assms
proof (induction path_item arbitrary: st)
  case Nil
  show ?case by simp
next
  case (Cons entry path_item)
  have rest: "\<forall>e \<in> set path_item. str_upper (fst e) \<in> set supported_methods \<longrightarrow>
             can_write env (clean_filename path (fst e))
               (generate_mdx_content path (fst e) (snd e))"
    using Cons.prems by simp
  show ?case
  proof (cases "str_upper (fst entry) \<in> set supported_methods")
    case True
    then have w: "can_write env (clean_filename path (fst entry))
                    (generate_mdx_content path (fst entry) (snd entry))"
      using Cons.prems by simp
    show ?thesis
      using upd_add_map_of_rev
      by (simp add: True process_operation_write[OF True w] Cons.IH[OF rest] del: fun_upd_apply)
  next
    case False
    show ?thesis
      by (simp add: False process_operation_skip[OF False] Cons.IH[OF rest])
  qed
qed

lemma for_each_item_fail:
  assumes "\<exists>e \<in> set path_item. str_upper (fst e) \<in> set supported_methods \<and>
             \<not> can_write env (clean_filename path (fst e))
                 (generate_mdx_content path (fst e) (snd e))"
  shows "for_each (process_operation env path) path_item st = Inl FilesystemError"
  using assms
proof (induction path_item arbitrary: st)
  case Nil
  then show ?case by simp
next
  case (Cons entry path_item)
  show ?case
  proof (cases "str_upper (fst entry) \<in> set supported_methods")
    case True
    show ?thesis
    proof (cases "can_write env (clean_filename path (fst entry))
                    (generate_mdx_content path (fst entry) (snd entry))")
      case w: True
      then have "\<exists>e \<in> set path_item. str_upper (fst e) \<in> set supported_methods \<and>
             \<not> can_write env (clean_filename path (fst e))
                 (generate_mdx_content path (fst e) (snd e))"
        using Cons.prems by auto
      from Cons.IH[OF this] show ?thesis
        by (simp add: process_operation_write[OF True w])
    next
      case False
      then show ?thesis by (simp add: process_operation_fail[OF True])
    qed
  next
    case False
    then have "\<exists>e \<in> set path_item. str_upper (fst e) \<in> set supported_methods \<and>
             \<not> can_write env (clean_filename path (fst e))
                 (generate_mdx_content path (fst e) (snd e))"
      using Cons.prems by auto
    from Cons.IH[OF this] show ?thesis
      by (simp add: process_operation_skip[OF False])
  qed
qed

lemma for_each_paths:
  assumes "\<forall>(path, entry) \<in> set
             (concat (map (\<lambda>(path, path_item). map (Pair path)
                      (filter (\<lambda>e. str_upper (fst e) \<in> set supported_methods) path_item)) paths)).
             can_write env (clean_filename path (fst entry))
               (generate_mdx_content path (fst entry) (snd entry))"
  shows "for_each (\<lambda>(path, path_item) st. for_each (process_operation env path) path_item st)
           paths st =
     Inr \<lparr>api_dir = api_dir st ++ map_of (rev (map (\<lambda>(path, entry).
                                  (clean_filename path (fst entry),
                                   generate_mdx_content path (fst entry) (snd entry)))
            (concat (map (\<lambda>(path, path_item). map (Pair path)
                      (filter (\<lambda>e. str_upper (fst e) \<in> set supported_methods) path_item)) paths)))),
          generated_count = generated_count st + length
            (concat (map (\<lambda>(path, path_item). map (Pair path)
                      (filter (\<lambda>e. str_upper (fst e) \<in> set supported_methods) path_item)) paths)),
          stdout = stdout st @ map (\<lambda>(path, entry). ''Generated: api/'' @ clean_filename path (fst entry))
            (concat (map (\<lambda>(path, path_item). map (Pair path)
                      (filter (\<lambda>e. str_upper (fst e) \<in> set supported_methods) path_item)) paths))\<rparr>"
  using assms
proof (induction paths arbitrary: st)
  case Nil
  show ?case by simp
next
  case (Cons item paths)
  obtain p path_item where e: "item = (p, path_item)" by (cases item)
  have here: "\<forall>e \<in> set path_item. str_upper (fst e) \<in> set supported_methods \<longrightarrow>
             can_write env (clean_filename p (fst e)) (generate_mdx_content p (fst e) (snd e))"
    using Cons.prems by (auto simp: e)
  have rest: "\<forall>(path, entry) \<in> set
             (concat (map (\<lambda>(path, path_item). map (Pair path)
                      (filter (\<lambda>e. str_upper (fst e) \<in> set supported_methods) path_item)) paths)).
             can_write env (clean_filename path (fst entry))
               (generate_mdx_content path (fst entry) (snd entry))"
    using Cons.prems by auto
  show ?case
    by (simp add: e for_each_item[OF here] Cons.IH[OF rest] comp_def)
qed

lemma for_each_paths_fail:
  assumes "(path, path_item) \<in> set paths" and "entry \<in> set path_item"
    and "str_upper (fst entry) \<in> set supported_methods"
    and "\<not> can_write env (clean_filename path (fst entry))
               (generate_mdx_content path (fst entry) (snd entry))"
  shows "for_each (\<lambda>(path, path_item) st. for_each (process_operation env path) path_item st)
           paths st = Inl FilesystemError"
  using assms(1)
proof (induction paths arbitrary: st)
  case Nil
  then show ?case by simp
next
  case (Cons item paths)
  obtain p items where e: "item = (p, items)" by (cases item)
  show ?case
  proof (cases "\<exists>e \<in> set items. str_upper (fst e) \<in> set supported_methods \<and>
             \<not> can_write env (clean_filename p (fst e)) (generate_mdx_content p (fst e) (snd e))")
    case True
    then show ?thesis by (simp add: e for_each_item_fail)
  next
    case False
    then have here: "\<forall>e \<in> set items. str_upper (fst e) \<in> set supported_methods \<longrightarrow>
             can_write env (clean_filename p (fst e)) (generate_mdx_content p (fst e) (snd e))"
      by blast
    have "(path, path_item) \<noteq> (p, items)"
      using False assms(2,3,4) by auto
    then have "(path, path_item) \<in> set paths"
      using Cons.prems by (auto simp: e)
    from Cons.IH[OF this] show ?thesis
      by (simp add: e for_each_item[OF here])
  qed
qed

lemma eligible_operations_pairs:
  "eligible_operations spec =
     map (\<lambda>(path, entry). (path, fst entry, snd entry))
       (concat (map (\<lambda>(path, path_item). map (Pair path)
                      (filter (\<lambda>e. str_upper (fst e) \<in> set supported_methods) path_item))
          (get_default (spec_paths spec) [])))"
  by (simp add: eligible_operations_def map_concat comp_def split_def)

lemma regenerate_all_docs_ok:
  assumes prep: "can_prepare env"
    and wr: "\<forall>(path, method, operation) \<in> set (eligible_operations spec).
           can_write env (clean_filename path method)
             (generate_mdx_content path method operation)"
  shows \<open>regenerate_all_docs env (Some spec) existing =
     Inr \<lparr>api_dir = map_of (rev (map (\<lambda>(path, method, operation).
                          (clean_filename path method,
                           generate_mdx_content path method operation))
                     (eligible_operations spec))),
          generated_count = length (eligible_operations spec),
          stdout = map (\<lambda>(path, method, operation).
                          ''Generated: api/'' @ clean_filename path method)
                     (eligible_operations spec)
                   @ [''\<newline>Generated '' @ str_nat (length (eligible_operations spec))
                        @ '' API documentation files'']\<rparr>\<close>
proof -
  have w: "\<forall>(path, entry) \<in> set
             (concat (map (\<lambda>(path, path_item). map (Pair path)
                      (filter (\<lambda>e. str_upper (fst e) \<in> set supported_methods) path_item))
                (get_default (spec_paths spec) []))).
             can_write env (clean_filename path (fst entry))
               (generate_mdx_content path (fst entry) (snd entry))"
    using wr by (force simp: eligible_operations_pairs)
  have run: "regenerate_all_docs env (Some spec) existing =
      (case for_each (\<lambda>(path, path_item) st. for_each (process_operation env path) path_item st)
              (get_default (spec_paths spec) [])
              \<lparr>api_dir = Map.empty, generated_count = 0, stdout = []\<rparr> of
         Inl e \<Rightarrow> Inl e
       | Inr st \<Rightarrow>
           Inr (st\<lparr>stdout := stdout st
                  @ [''\<newline>Generated '' @ str_nat (generated_count st)
                       @ '' API documentation files'']\<rparr>))"
    unfolding regenerate_all_docs_def load_openapi_spec_def Let_def
    by (simp add: prep split: option.splits)
  show ?thesis
    unfolding run for_each_paths[OF w]
    by (simp add: eligible_operations_pairs comp_def split_def)
qed

text \<open>
  A run ends in an error, with no count printed, when the specification cannot be
  loaded or when the write for some supported operation fails.
\<close>

lemma regenerate_all_docs_write_failure:
  assumes "can_prepare env"
    and "(path, path_item) \<in> set (get_default (spec_paths spec) [])"
    and "entry \<in> set path_item"
    and "str_upper (fst entry) \<in> set supported_methods"
    and "\<not> can_write env (clean_filename path (fst entry))
               (generate_mdx_content path (fst entry) (snd entry))"
  shows "regenerate_all_docs env (Some spec) existing = Inl FilesystemError"
  by (simp add: regenerate_all_docs_def load_openapi_spec_def Let_def assms(1)
        for_each_paths_fail[OF assms(2,3,4,5)])

lemma regenerate_all_docs_load_failure:
  "regenerate_all_docs env None existing = Inl LoadError"
  by (simp add: regenerate_all_docs_def load_openapi_spec_def)

lemma dom_written_files:
  "dom (map_of (rev (map (\<lambda>(path, method, operation).
                          (clean_filename path method,
                           generate_mdx_content path method operation)) es))) =
     (\<lambda>(path, method, operation). clean_filename path method) ` set es"
  by (force simp: dom_map_of_conv_image_fst image_image split_def)

lemma written_files_distinct_names:
  assumes d: "distinct (map (\<lambda>(path, method, operation). clean_filename path method) es)"
  shows "card (dom (map_of (rev (map (\<lambda>(path, method, operation).
                          (clean_filename path method,
                           generate_mdx_content path method operation)) es)))) = length es"
    and "\<forall>(path, method, operation) \<in> set es.
           map_of (rev (map (\<lambda>(path, method, operation).
                          (clean_filename path method,
                           generate_mdx_content path method operation)) es))
             (clean_filename path method) =
             Some (generate_mdx_content path method operation)"
proof -
  have "dom (map_of (rev (map (\<lambda>(path, method, operation).
                          (clean_filename path method,
                           generate_mdx_content path method operation)) es))) =
          set (map (\<lambda>(path, method, operation). clean_filename path method) es)"
    by (simp add: dom_written_files)
  then show "card (dom (map_of (rev (map (\<lambda>(path, method, operation).
                          (clean_filename path method,
                           generate_mdx_content path method operation)) es)))) = length es"
    using distinct_card[OF d] by simp
  have fs: "map fst (rev (map (\<lambda>(path, method, operation).
                          (clean_filename path method,
                           generate_mdx_content path method operation)) es)) =
            rev (map (\<lambda>(path, method, operation). clean_filename path method) es)"
    by (simp add: rev_map split_def comp_def)
  have dr: "distinct (map fst (rev (map (\<lambda>(path, method, operation).
                          (clean_filename path method,
                           generate_mdx_content path method operation)) es)))"
    unfolding fs using d by simp
  show "\<forall>(path, method, operation) \<in> set es.
           map_of (rev (map (\<lambda>(path, method, operation).
                          (clean_filename path method,
                           generate_mdx_content path method operation)) es))
             (clean_filename path method) =
             Some (generate_mdx_content path method operation)"
    by (auto intro!: map_of_is_SomeI[OF dr] rev_image_eqI)
qed

lemma set_eligible_operations:
  "set (eligible_operations spec) =
     {(path, method, operation). \<exists>path_item.
        (path, path_item) \<in> set (get_default (spec_paths spec) [])
        \<and> (method, operation) \<in> set path_item
        \<and> str_upper method \<in> {''GET'', ''POST'', ''PUT'', ''PATCH'', ''DELETE''}}"
  by (auto simp: eligible_operations_def supported_methods_def)

text \<open>
  C8, as amended. Take a specification whose method keys are ASCII and a run in which
  the directory can be prepared and every write succeeds. Whatever the directory held
  before, the run performs one write for each (path, method) of the specification
  whose method, put in upper case, is GET, POST, PUT, PATCH or DELETE, and none for
  any other entry: the lines printed name the files in the iteration order of the
  specification, one per such pair, and end with the count, which is the number of
  these pairs. The directory holds exactly the files with the names derived from these
  pairs, each with the document written last under its name. When the derived names
  are pairwise distinct there are as many files as pairs and every pair has its own
  document in its file.
\<close>

theorem one_write_per_supported_operation:
  assumes "ascii_method_keys spec"
    and "can_prepare env"
    and "\<forall>(path, method, operation) \<in> set (eligible_operations spec).
           can_write env (clean_filename path method)
             (generate_mdx_content path method operation)"
  shows \<open>(\<exists>st. regenerate_all_docs env (Some spec) existing = Inr st
        \<and> stdout st =
            map (\<lambda>(path, method, operation). ''Generated: api/'' @ clean_filename path method)
              (eligible_operations spec)
            @ [''\<newline>Generated '' @ str_nat (length (eligible_operations spec))
                 @ '' API documentation files'']
        \<and> generated_count st = length (eligible_operations spec)
        \<and> api_dir st =
            map_of (rev (map (\<lambda>(path, method, operation).
                               (clean_filename path method,
                                generate_mdx_content path method operation))
                          (eligible_operations spec)))
        \<and> dom (api_dir st) =
            (\<lambda>(path, method, operation). clean_filename path method)
              ` set (eligible_operations spec)
        \<and> (distinct (map (\<lambda>(path, method, operation). clean_filename path method)
                        (eligible_operations spec)) \<longrightarrow>
             card (dom (api_dir st)) = length (eligible_operations spec)
             \<and> (\<forall>(path, method, operation) \<in> set (eligible_operations spec).
                   api_dir st (clean_filename path method) =
                     Some (generate_mdx_content path method operation))))
   \<and> set (eligible_operations spec) =
       {(path, method, operation). \<exists>path_item.
          (path, path_item) \<in> set (get_default (spec_paths spec) [])
          \<and> (method, operation) \<in> set path_item
          \<and> str_upper method \<in> {''GET'', ''POST'', ''PUT'', ''PATCH'', ''DELETE''}}\<close>
proof -
  define st where \<open>st =
     \<lparr>api_dir = map_of (rev (map (\<lambda>(path, method, operation).
                          (clean_filename path method,
                           generate_mdx_content path method operation))
                     (eligible_operations spec))),
      generated_count = length (eligible_operations spec),
      stdout = map (\<lambda>(path, method, operation).
                      ''Generated: api/'' @ clean_filename path method)
                 (eligible_operations spec)
               @ [''\<newline>Generated '' @ str_nat (length (eligible_operations spec))
                    @ '' API documentation files'']\<rparr>\<close>
  have run: "regenerate_all_docs env (Some spec) existing = Inr st"
    unfolding st_def by (rule regenerate_all_docs_ok[OF assms(2,3)])
  have out: \<open>stdout st =
            map (\<lambda>(path, method, operation). ''Generated: api/'' @ clean_filename path method)
              (eligible_operations spec)
            @ [''\<newline>Generated '' @ str_nat (length (eligible_operations spec))
                 @ '' API documentation files'']\<close>
    by (simp add: st_def)
  have count: "generated_count st = length (eligible_operations spec)"
    by (simp add: st_def)
  have files: "api_dir st =
            map_of (rev (map (\<lambda>(path, method, operation).
                               (clean_filename path method,
                                generate_mdx_content path method operation))
                          (eligible_operations spec)))"
    by (simp add: st_def)
  have names: "dom (api_dir st) =
            (\<lambda>(path, method, operation). clean_filename path method)
              ` set (eligible_operations spec)"
    unfolding files by (rule dom_written_files)
  have own: "distinct (map (\<lambda>(path, method, operation). clean_filename path method)
                        (eligible_operations spec)) \<longrightarrow>
             card (dom (api_dir st)) = length (eligible_operations spec)
             \<and> (\<forall>(path, method, operation) \<in> set (eligible_operations spec).
                   api_dir st (clean_filename path method) =
                     Some (generate_mdx_content path method operation))"
    unfolding files using written_files_distinct_names by blast
  from run out count files names own set_eligible_operations[of spec]
  show ?thesis by blast
qed

text \<open>
  C8 at a concrete input: a specification with GET on \<open>/users\<close>, an entry
  \<open>parameters\<close> beside it that is no operation of a supported kind, and DELETE on
  \<open>/users/{id}\<close>, where every write succeeds.
\<close>

theorem one_write_per_supported_operation_witness:
  \<open>regenerate_all_docs permissive_env
      (Some \<lparr>spec_paths = Some
          [(''/users'',
            [(''get'', \<lparr>op_summary = None, op_description = None, op_parameters = None,
                       op_requestBody = None, op_responses = None, op_security = None\<rparr>),
             (''parameters'', \<lparr>op_summary = None, op_description = None, op_parameters = None,
                       op_requestBody = None, op_responses = None, op_security = None\<rparr>)]),
           (''/users/{id}'',
            [(''DELETE'', \<lparr>op_summary = None, op_description = None, op_parameters = None,
                       op_requestBody = None, op_responses = None, op_security = None\<rparr>)])]\<rparr>)
      None =
     Inr \<lparr>api_dir =
            [''get-users.mdx'' \<mapsto> generate_mdx_content ''/users'' ''get''
                 \<lparr>op_summary = None, op_description = None, op_parameters = None,
                  op_requestBody = None, op_responses = None, op_security = None\<rparr>,
             ''delete-users-{id}.mdx'' \<mapsto> generate_mdx_content ''/users/{id}'' ''DELETE''
                 \<lparr>op_summary = None, op_description = None, op_parameters = None,
                  op_requestBody = None, op_responses = None, op_security = None\<rparr>],
          generated_count = 2,
          stdout = [''Generated: api/get-users.mdx'',
                    ''Generated: api/delete-users-{id}.mdx'',
                    ''\<newline>Generated 2 API documentation files'']\<rparr>\<close>
proof -
  let ?op = "\<lparr>op_summary = None, op_description = None, op_parameters = None,
              op_requestBody = None, op_responses = None, op_security = None\<rparr>"
  let ?spec = "\<lparr>spec_paths = Some [(''/users'', [(''get'', ?op), (''parameters'', ?op)]),
                                  (''/users/{id}'', [(''DELETE'', ?op)])]\<rparr>"
  have u: "str_upper ''get'' = ''GET''" "str_upper ''parameters'' = ''PARAMETERS''"
    "str_upper ''DELETE'' = ''DELETE''"
    by code_simp+
  have l: "str_lower ''get'' = ''get''" "str_lower ''DELETE'' = ''delete''"
    by code_simp+
  have n: "str_nat (Suc (Suc 0)) = ''2''" by code_simp
  have a: "is_ascii ''get''" "is_ascii ''parameters''" "is_ascii ''DELETE''"
    by code_simp+
  have el: "eligible_operations ?spec = [(''/users'', ''get'', ?op), (''/users/{id}'', ''DELETE'', ?op)]"
    by (simp add: eligible_operations_def get_default_def supported_methods_def u)
  have h1: "ascii_method_keys ?spec"
    by (simp add: ascii_method_keys_def get_default_def a)
  have h2: "can_prepare permissive_env"
    by (simp add: permissive_env_def)
  have h3: "\<forall>(path, method, operation) \<in> set (eligible_operations ?spec).
           can_write permissive_env (clean_filename path method)
             (generate_mdx_content path method operation)"
    by (simp add: permissive_env_def)
  from one_write_per_supported_operation [OF h1 h2 h3, of None, THEN conjunct1]
  obtain st where run: "regenerate_all_docs permissive_env (Some ?spec) None = Inr st"
    and out0: \<open>stdout st =
            map (\<lambda>(path, method, operation). ''Generated: api/'' @ clean_filename path method)
              (eligible_operations ?spec)
            @ [''\<newline>Generated '' @ str_nat (length (eligible_operations ?spec))
                 @ '' API documentation files'']\<close>
    and count0: "generated_count st = length (eligible_operations ?spec)"
    and files0: "api_dir st =
            map_of (rev (map (\<lambda>(path, method, operation).
                               (clean_filename path method,
                                generate_mdx_content path method operation))
                          (eligible_operations ?spec)))"
    by blast
  have out: "stdout st = [''Generated: api/get-users.mdx'',
                    ''Generated: api/delete-users-{id}.mdx'',
                    ''\<newline>Generated 2 API documentation files'']"
    unfolding out0 el by (simp add: clean_filename_eq l n)
  have count: "generated_count st = 2"
    unfolding count0 el by simp
  have files: "api_dir st =
            [''get-users.mdx'' \<mapsto> generate_mdx_content ''/users'' ''get'' ?op,
             ''delete-users-{id}.mdx'' \<mapsto> generate_mdx_content ''/users/{id}'' ''DELETE'' ?op]"
    unfolding files0 el by (simp add: clean_filename_eq l)
  have "st = \<lparr>api_dir = api_dir st, generated_count = generated_count st, stdout = stdout st\<rparr>"
    by simp
  then have "st = \<lparr>api_dir = [''get-users.mdx'' \<mapsto> generate_mdx_content ''/users'' ''get'' ?op,
             ''delete-users-{id}.mdx'' \<mapsto> generate_mdx_content ''/users/{id}'' ''DELETE'' ?op],
          generated_count = 2,
          stdout = [''Generated: api/get-users.mdx'',
                    ''Generated: api/delete-users-{id}.mdx'',
                    ''\<newline>Generated 2 API documentation files'']\<rparr>"
    by (simp only: out count files)
  with run show ?thesis by (simp only:)
qed

text \<open>
  C8 as stated, with one output file for each pair, fails where two pairs derive the
  same name, even when every write succeeds: GET on \<open>/a/b\<close> and GET on \<open>/a-b\<close> are
  counted as two and leave one file, which holds the second document.
\<close>

theorem colliding_filenames_counterexample:
  \<open>regenerate_all_docs permissive_env
      (Some \<lparr>spec_paths = Some
          [(''/a/b'',
            [(''get'', \<lparr>op_summary = Some ''First'', op_description = None, op_parameters = None,
                       op_requestBody = None, op_responses = None, op_security = None\<rparr>)]),
           (''/a-b'',
            [(''get'', \<lparr>op_summary = Some ''Second'', op_description = None, op_parameters = None,
                       op_requestBody = None, op_responses = None, op_security = None\<rparr>)])]\<rparr>)
      None =
     Inr \<lparr>api_dir =
            [''get-a-b.mdx'' \<mapsto> generate_mdx_content ''/a-b'' ''get''
                 \<lparr>op_summary = Some ''Second'', op_description = None, op_parameters = None,
                  op_requestBody = None, op_responses = None, op_security = None\<rparr>],
          generated_count = 2,
          stdout = [''Generated: api/get-a-b.mdx'',
                    ''Generated: api/get-a-b.mdx'',
                    ''\<newline>Generated 2 API documentation files'']\<rparr>\<close>
proof -
  let ?a = "\<lparr>op_summary = Some ''First'', op_description = None, op_parameters = None,
              op_requestBody = None, op_responses = None, op_security = None\<rparr>"
  let ?b = "\<lparr>op_summary = Some ''Second'', op_description = None, op_parameters = None,
              op_requestBody = None, op_responses = None, op_security = None\<rparr>"
  let ?spec = "\<lparr>spec_paths = Some [(''/a/b'', [(''get'', ?a)]), (''/a-b'', [(''get'', ?b)])]\<rparr>"
  have u: "str_upper ''get'' = ''GET''" by code_simp
  have l: "str_lower ''get'' = ''get''" by code_simp
  have n: "str_nat (Suc (Suc 0)) = ''2''" by code_simp
  have el: "eligible_operations ?spec = [(''/a/b'', ''get'', ?a), (''/a-b'', ''get'', ?b)]"
    by (simp add: eligible_operations_def get_default_def supported_methods_def u)
  have h2: "can_prepare permissive_env"
    by (simp add: permissive_env_def)
  have h3: "\<forall>(path, method, operation) \<in> set (eligible_operations ?spec).
           can_write permissive_env (clean_filename path method)
             (generate_mdx_content path method operation)"
    by (simp add: permissive_env_def)
  have files: "map_of (rev (map (\<lambda>(path, method, operation).
                               (clean_filename path method,
                                generate_mdx_content path method operation))
                          [(''/a/b'', ''get'', ?a), (''/a-b'', ''get'', ?b)])) =
               [''get-a-b.mdx'' \<mapsto> generate_mdx_content ''/a-b'' ''get'' ?b]"
    by (simp add: clean_filename_eq l)
  have out: \<open>map (\<lambda>(path, method, operation). ''Generated: api/'' @ clean_filename path method)
              [(''/a/b'', ''get'', ?a), (''/a-b'', ''get'', ?b)]
            @ [''\<newline>Generated '' @ str_nat (length [(''/a/b'', ''get'', ?a), (''/a-b'', ''get'', ?b)])
                 @ '' API documentation files''] =
            [''Generated: api/get-a-b.mdx'', ''Generated: api/get-a-b.mdx'',
             ''\<newline>Generated 2 API documentation files'']\<close>
    by (simp add: clean_filename_eq l n)
  show ?thesis
    unfolding regenerate_all_docs_ok[OF h2 h3] el files out by simp
qed

end
